theory Spec2Isabelle
  imports Complex_Main "HOL-Library.AList"
begin

section \<open>Python strings\<close>

text \<open>
  A Python \<open>str\<close> is modelled as a \<open>string\<close>: a list of 8-bit characters, each read as
  the code point of the same number (0 to 255).  \<open>len\<close> is \<open>length\<close>.
\<close>

text \<open>\<open>str.isspace\<close> on the code points below 256.\<close>

definition is_space :: "char \<Rightarrow> bool" where
  "is_space c = (c \<in> set [CHR 0x09, CHR 0x0A, CHR 0x0B, CHR 0x0C, CHR 0x0D,
                            CHR 0x1C, CHR 0x1D, CHR 0x1E, CHR 0x1F, CHR 0x20,
                            CHR 0x85, CHR 0xA0])"

definition lstrip :: "string \<Rightarrow> string" where
  "lstrip s = dropWhile is_space s"

definition rstrip :: "string \<Rightarrow> string" where
  "rstrip s = rev (dropWhile is_space (rev s))"

text \<open>\<open>s.strip()\<close>\<close>

definition strip :: "string \<Rightarrow> string" where
  "strip s = rstrip (lstrip s)"

text \<open>\<open>s.rstrip(cs)\<close>: drop every trailing character that occurs in \<open>cs\<close>.\<close>

definition rstrip_chars :: "string \<Rightarrow> string \<Rightarrow> string" where
  "rstrip_chars cs s = rev (dropWhile (\<lambda>c. c \<in> set cs) (rev s))"

text \<open>\<open>s.lower()\<close>: A-Z and the upper-case letters of Latin-1 move up by 32.\<close>

definition lower_char :: "char \<Rightarrow> char" where
  "lower_char c =
     (let n = (of_char c :: nat) in
      if (65 \<le> n \<and> n \<le> 90) \<or> (192 \<le> n \<and> n \<le> 222 \<and> n \<noteq> 215)
      then char_of (n + 32) else c)"

definition lower :: "string \<Rightarrow> string" where
  "lower s = map lower_char s"

text \<open>
  \<open>s.upper()\<close>: a-z and the lower-case letters of Latin-1 move down by 32, and the sharp s
  becomes \<open>SS\<close>.  The upper-case forms of the code points 181 and 255 lie above 255; the
  model leaves the two unchanged.
\<close>

definition upper_char :: "char \<Rightarrow> string" where
  "upper_char c =
     (let n = (of_char c :: nat) in
      if (97 \<le> n \<and> n \<le> 122) \<or> (224 \<le> n \<and> n \<le> 254 \<and> n \<noteq> 247)
      then [char_of (n - 32)]
      else if n = 223 then ''SS'' else [c])"

definition upper :: "string \<Rightarrow> string" where
  "upper s = concat (map upper_char s)"

text \<open>\<open>s.startswith(p)\<close>\<close>

fun startswith :: "string \<Rightarrow> string \<Rightarrow> bool" where
  "startswith s [] = True"
| "startswith [] (p # ps) = False"
| "startswith (c # cs) (p # ps) = (c = p \<and> startswith cs ps)"

text \<open>\<open>s.endswith(p)\<close>\<close>

definition endswith :: "string \<Rightarrow> string \<Rightarrow> bool" where
  "endswith s p = startswith (rev s) (rev p)"

text \<open>\<open>sub in s\<close>, the substring test.\<close>

fun contains :: "string \<Rightarrow> string \<Rightarrow> bool" where
  "contains sub [] = (sub = [])"
| "contains sub (c # cs) = (startswith (c # cs) sub \<or> contains sub cs)"

text \<open>
  \<open>s.split(sep, 1)\<close> for a non-empty \<open>sep\<close>: the text before the first occurrence of
  \<open>sep\<close> and the text after it, or \<open>s\<close> alone when \<open>sep\<close> does not occur.
\<close>

fun split1 :: "string \<Rightarrow> string \<Rightarrow> string list" where
  "split1 sep [] = [[]]"
| "split1 sep (c # cs) =
     (if startswith (c # cs) sep then [[], drop (length sep) (c # cs)]
      else (case split1 sep cs of
              [a] \<Rightarrow> [c # a]
            | a # rest \<Rightarrow> (c # a) # rest
            | [] \<Rightarrow> []))"

text \<open>\<open>s.split(sep)[0]\<close>: the first element is the same with and without a limit.\<close>

definition split_head :: "string \<Rightarrow> string \<Rightarrow> string" where
  "split_head sep s = hd (split1 sep s)"

text \<open>\<open>s.rsplit(c, 1)[-1]\<close>: the text after the last occurrence of the character.\<close>

definition rsplit_last :: "char \<Rightarrow> string \<Rightarrow> string" where
  "rsplit_last c s = rev (takeWhile (\<lambda>x. x \<noteq> c) (rev s))"

text \<open>
  \<open>re.split(r"[;\n,]+", s)\<close>: cut at every maximal run of separators; a run at either end
  leaves an empty string there.
\<close>

definition is_status_sep :: "char \<Rightarrow> bool" where
  "is_status_sep c = (c = CHR '';'' \<or> c = CHR 0x0A \<or> c = CHR '','')"

fun re_split :: "string \<Rightarrow> string list" where
  "re_split [] = [[]]"
| "re_split (c # cs) =
     (if is_status_sep c then
        (if cs \<noteq> [] \<and> is_status_sep (hd cs) then re_split cs else [] # re_split cs)
      else (case re_split cs of
              a # rest \<Rightarrow> (c # a) # rest
            | [] \<Rightarrow> [[c]]))"

section \<open>Python values, dictionaries, requests and events\<close>

text \<open>
  The values the service handles: what \<open>json\<close> parses (null, booleans, numbers, strings,
  arrays, objects) and the \<open>datetime\<close> of the WHOIS client, kept as its \<open>isoformat()\<close>
  text.  A \<open>dict\<close> is an association list in insertion order; \<open>d[k] = v\<close> is
  \<open>AList.update k v d\<close>, which replaces in place or appends, and \<open>d.get(k)\<close> reads
  \<open>map_of d k\<close>.
\<close>

datatype pyval =
    PNone
  | PBool bool
  | PInt int
  | PFloat real
  | PStr string
  | PDateTime string
  | PList "pyval list"
  | PDict "(string \<times> pyval) list"

type_synonym dict = "(string \<times> pyval) list"

record LookupRequest =
  domains :: "string list"
  fields' :: "string list"
  use_rdap :: bool

text \<open>
  A server-sent event: its name and the payload before \<open>json.dumps\<close>
  (\<open>total\<close>, \<open>message\<close>, \<open>result\<close>, \<open>error\<close>).
\<close>

datatype event = Total nat | Message string | Result dict | Error string

definition ALLOWED_FIELDS :: "string set" where
  "ALLOWED_FIELDS = {''domain'', ''registrar'', ''registrant_name'', ''statuses'',
                     ''creation_date'', ''nexus_categories'', ''nameservers''}"

definition MAX_DOMAINS :: nat where
  "MAX_DOMAINS = 500"

section \<open>The batch stream controller\<close>

text \<open>
  The two lookups reach the network, so the controller takes them as parameters: a lookup
  gets the domain and the state of the outside world and returns the parsed record, or the
  text of the exception it raised (\<open>Inl\<close>), with the world after the call.  Every call of a
  lookup is logged.
\<close>

type_synonym 'w lookup = "string \<Rightarrow> 'w \<Rightarrow> (string + dict) \<times> 'w"

datatype lookup_call = RdapCall string | WhoisCall string

text \<open>\<open>{field: "Processing..." for field in request.fields}\<close>, then the domain.\<close>

definition init_result :: "string list \<Rightarrow> string \<Rightarrow> dict" where
  "init_result fs d =
     AList.update ''domain'' (PStr d)
       (fold (\<lambda>f r. AList.update f (PStr ''Processing...'') r) fs [])"

text \<open>The loops that overwrite every requested field but \<open>domain\<close> with a placeholder.\<close>

definition mark_fields :: "string list \<Rightarrow> string \<Rightarrow> dict \<Rightarrow> dict" where
  "mark_fields fs txt r =
     fold (\<lambda>f r. if f \<noteq> ''domain'' then AList.update f (PStr txt) r else r) fs r"

text \<open>\<open>current_result[field_key] = raw_data.get(field_key, "Not found")\<close> for each field.\<close>

definition copy_fields :: "string list \<Rightarrow> dict \<Rightarrow> dict \<Rightarrow> dict" where
  "copy_fields fs raw r =
     fold (\<lambda>f r. AList.update f (case map_of raw f of Some v \<Rightarrow> v
                                   | None \<Rightarrow> PStr ''Not found'') r) fs r"

text \<open>
  The record of a domain reached with the rate-limit flag set: every requested field but
  \<open>domain\<close> is the placeholder, and the record says why.
\<close>

definition rate_limited_result :: "string list \<Rightarrow> string \<Rightarrow> dict" where
  "rate_limited_result fs d =
     AList.update ''error_message'' (PStr ''Rate limit reached, further lookups stopped.'')
       (mark_fields fs ''Rate limit reached'' (init_result fs d))"

text \<open>
  The inner \<open>try\<close> of the loop body: RDAP first when asked for, WHOIS on any failure that
  is not a rate limit, WHOIS alone otherwise.  The result is the record with the method
  used, or the text of the exception that leaves the block.
\<close>

definition lookup_domain ::
  "'w lookup \<Rightarrow> 'w lookup \<Rightarrow> bool \<Rightarrow> string \<Rightarrow> 'w
     \<Rightarrow> (string + dict \<times> string) \<times> lookup_call list \<times> 'w" where
  "lookup_domain rdap whois use d w =
     (if use then
        (case rdap d w of
           (Inr raw, w1) \<Rightarrow> (Inr (raw, ''RDAP''), [RdapCall d], w1)
         | (Inl msg, w1) \<Rightarrow>
             if contains ''Rate limit reached'' msg then (Inl msg, [RdapCall d], w1)
             else (case whois d w1 of
                     (Inr raw, w2) \<Rightarrow>
                       (Inr (raw, ''WHOIS (RDAP fallback)''), [RdapCall d, WhoisCall d], w2)
                   | (Inl msg2, w2) \<Rightarrow> (Inl msg2, [RdapCall d, WhoisCall d], w2)))
      else
        (case whois d w of
           (Inr raw, w1) \<Rightarrow> (Inr (raw, ''WHOIS''), [WhoisCall d], w1)
         | (Inl msg, w1) \<Rightarrow> (Inl msg, [WhoisCall d], w1)))"

text \<open>
  One turn of the \<open>for\<close> loop: the result record, the rate-limit flag after the turn, the
  lookups called and the world.
\<close>

definition process_domain ::
  "'w lookup \<Rightarrow> 'w lookup \<Rightarrow> string list \<Rightarrow> bool \<Rightarrow> bool \<Rightarrow> string \<Rightarrow> 'w
     \<Rightarrow> dict \<times> bool \<times> lookup_call list \<times> 'w" where
  "process_domain rdap whois fs use rate_limit_reached_globally d w =
     (let current_result = init_result fs d in
      if rate_limit_reached_globally then (rate_limited_result fs d, True, [], w)
      else
        (case lookup_domain rdap whois use d w of
           (Inr (raw_data, lookup_method_used), cs, w1) \<Rightarrow>
             (AList.update ''_method'' (PStr lookup_method_used)
                (copy_fields fs raw_data current_result),
              False, cs, w1)
         | (Inl error_msg, cs, w1) \<Rightarrow>
             if contains ''Rate limit reached'' error_msg then
               (AList.update ''error_message''
                  (PStr ''Rate limit reached. Subsequent lookups for other domains will also be marked as rate-limited.'')
                  (mark_fields fs ''Rate limit reached'' current_result),
                True, cs, w1)
             else
               (AList.update ''error_message'' (PStr (''Failed: '' @ error_msg))
                  (mark_fields fs ''Lookup failed'' current_result),
                False, cs, w1)))"

text \<open>The \<open>for\<close> loop over the domain list: one \<open>result\<close> event per turn.\<close>

fun stream_loop ::
  "'w lookup \<Rightarrow> 'w lookup \<Rightarrow> string list \<Rightarrow> bool \<Rightarrow> bool \<Rightarrow> string list \<Rightarrow> 'w
     \<Rightarrow> event list \<times> lookup_call list \<times> bool \<times> 'w" where
  "stream_loop rdap whois fs use flag [] w = ([], [], flag, w)"
| "stream_loop rdap whois fs use flag (d # ds) w =
     (case process_domain rdap whois fs use flag d w of
        (r, flag1, cs, w1) \<Rightarrow>
          (case stream_loop rdap whois fs use flag1 ds w1 of
             (evs, cs2, flag2, w2) \<Rightarrow> (Result r # evs, cs @ cs2, flag2, w2)))"

text \<open>
  The generator, run to its end: the events in the order they are yielded, the lookups
  called and the world.  The pacing delay and the cancellation by a disconnecting client
  are not part of the model.
\<close>

definition lookup_and_stream_generator ::
  "'w lookup \<Rightarrow> 'w lookup \<Rightarrow> LookupRequest \<Rightarrow> 'w \<Rightarrow> event list \<times> lookup_call list \<times> 'w" where
  "lookup_and_stream_generator rdap whois request w =
     (let domain_list = map strip (filter (\<lambda>d. strip d \<noteq> []) (domains request)) in
      case stream_loop rdap whois (fields' request) (use_rdap request)
             False domain_list w of
        (evs, cs, flag, w1) \<Rightarrow>
          (Total (length domain_list) # Message ''Lookup started'' # evs, cs, w1))"

section \<open>The endpoint: validation of the request\<close>

text \<open>The loop that fills \<open>cleaned_domains\<close>, with its set \<open>seen\<close>.\<close>

fun clean_domains :: "string set \<Rightarrow> string list \<Rightarrow> string list \<Rightarrow> string list" where
  "clean_domains seen cleaned [] = cleaned"
| "clean_domains seen cleaned (d # ds) =
     (let dn = strip d in
      if dn = [] then clean_domains seen cleaned ds
      else if length dn > 255 then clean_domains seen cleaned ds
      else if lower dn \<in> seen then clean_domains seen cleaned ds
      else clean_domains (insert (lower dn) seen) (cleaned @ [dn]) ds)"

definition truncate_domains :: "string list \<Rightarrow> string list" where
  "truncate_domains cleaned_domains =
     (if length cleaned_domains > MAX_DOMAINS then take MAX_DOMAINS cleaned_domains
      else cleaned_domains)"

definition clean_fields :: "string list \<Rightarrow> string list" where
  "clean_fields fs = filter (\<lambda>f. f \<in> ALLOWED_FIELDS) fs"

definition whois_lookup_endpoint ::
  "'w lookup \<Rightarrow> 'w lookup \<Rightarrow> LookupRequest \<Rightarrow> 'w \<Rightarrow> event list \<times> lookup_call list \<times> 'w" where
  "whois_lookup_endpoint rdap whois request w =
     (let cleaned_domains = clean_domains {} [] (domains request) in
      if cleaned_domains = [] then
        ([Total 0, Error ''No valid domains provided.''], [], w)
      else
        (let cleaned_domains = truncate_domains cleaned_domains;
             cleaned_fields = clean_fields (fields' request) in
         if cleaned_fields = [] then
           ([Total 0, Error ''No valid fields requested.''], [], w)
         else
           lookup_and_stream_generator rdap whois
             \<lparr>domains = cleaned_domains, fields' = cleaned_fields,
              use_rdap = use_rdap request\<rparr> w))"

text \<open>
  The validation in the words of the specification: trim, drop the empty and the over-long
  entries, keep the first of the entries that are equal up to case, keep the first 500.
\<close>

fun dedup_ci :: "string list \<Rightarrow> string list" where
  "dedup_ci [] = []"
| "dedup_ci (x # xs) = x # dedup_ci (filter (\<lambda>y. lower y \<noteq> lower x) xs)"

definition spec_clean_domains :: "string list \<Rightarrow> string list" where
  "spec_clean_domains ds =
     take 500 (dedup_ci (filter (\<lambda>d. d \<noteq> [] \<and> length d \<le> 255) (map strip ds)))"

section \<open>Python operations on values\<close>

text \<open>
  The operations of the dynamically typed source, with the exception each raises on a value
  of the wrong type.
\<close>

datatype py_exc = AttributeError | TypeError | KeyError | IndexError

definition exc_bind :: "py_exc + 'a \<Rightarrow> ('a \<Rightarrow> py_exc + 'b) \<Rightarrow> py_exc + 'b" where
  "exc_bind m f = (case m of Inl e \<Rightarrow> Inl e | Inr x \<Rightarrow> f x)"

text \<open>The truth value of \<open>if v\<close>.\<close>

fun truthy :: "pyval \<Rightarrow> bool" where
  "truthy PNone = False"
| "truthy (PBool b) = b"
| "truthy (PInt i) = (i \<noteq> 0)"
| "truthy (PFloat r) = (r \<noteq> 0)"
| "truthy (PStr s) = (s \<noteq> [])"
| "truthy (PDateTime s) = True"
| "truthy (PList xs) = (xs \<noteq> [])"
| "truthy (PDict kvs) = (kvs \<noteq> [])"

text \<open>\<open>v.get(k, dflt)\<close>: only a dict has the method.\<close>

fun py_get :: "pyval \<Rightarrow> string \<Rightarrow> pyval \<Rightarrow> py_exc + pyval" where
  "py_get (PDict kvs) k dflt = Inr (case map_of kvs k of Some v \<Rightarrow> v | None \<Rightarrow> dflt)"
| "py_get v k dflt = Inl AttributeError"

text \<open>\<open>for x in v\<close>: a list gives its elements, a dict its keys, a str its characters.\<close>

fun py_iter :: "pyval \<Rightarrow> py_exc + pyval list" where
  "py_iter (PList xs) = Inr xs"
| "py_iter (PDict kvs) = Inr (map (\<lambda>kv. PStr (fst kv)) kvs)"
| "py_iter (PStr s) = Inr (map (\<lambda>c. PStr [c]) s)"
| "py_iter v = Inl TypeError"

text \<open>\<open>k in v\<close> for a string \<open>k\<close>.\<close>

fun py_in :: "string \<Rightarrow> pyval \<Rightarrow> py_exc + bool" where
  "py_in k (PList xs) = Inr (PStr k \<in> set xs)"
| "py_in k (PDict kvs) = Inr (map_of kvs k \<noteq> None)"
| "py_in k (PStr s) = Inr (contains k s)"
| "py_in k v = Inl TypeError"

fun py_len :: "pyval \<Rightarrow> py_exc + nat" where
  "py_len (PList xs) = Inr (length xs)"
| "py_len (PDict kvs) = Inr (length kvs)"
| "py_len (PStr s) = Inr (length s)"
| "py_len v = Inl TypeError"

text \<open>\<open>v[i]\<close> for an index \<open>i \<ge> 0\<close>; the keys of a parsed JSON object are strings.\<close>

fun py_index :: "pyval \<Rightarrow> nat \<Rightarrow> py_exc + pyval" where
  "py_index (PList xs) i = (if i < length xs then Inr (xs ! i) else Inl IndexError)"
| "py_index (PStr s) i = (if i < length s then Inr (PStr [s ! i]) else Inl IndexError)"
| "py_index (PDict kvs) i = Inl KeyError"
| "py_index v i = Inl TypeError"

text \<open>
  \<open>str(v)\<close>: a string is itself; the text of any other value is left to the parameter
  \<open>pystr\<close>.
\<close>

definition py_str :: "(pyval \<Rightarrow> string) \<Rightarrow> pyval \<Rightarrow> string" where
  "py_str pystr v = (case v of PStr s \<Rightarrow> s | _ \<Rightarrow> pystr v)"

definition is_list :: "pyval \<Rightarrow> bool" where
  "is_list v = (case v of PList xs \<Rightarrow> True | _ \<Rightarrow> False)"

definition is_str :: "pyval \<Rightarrow> bool" where
  "is_str v = (case v of PStr s \<Rightarrow> True | _ \<Rightarrow> False)"

definition is_dict :: "pyval \<Rightarrow> bool" where
  "is_dict v = (case v of PDict kvs \<Rightarrow> True | _ \<Rightarrow> False)"

text \<open>
  \<open>next((x for x in xs if p(x)), None)\<close>: the first element that passes the test; the
  elements after it are not looked at, an exception raised before it propagates.
\<close>

fun find_first :: "(pyval \<Rightarrow> py_exc + bool) \<Rightarrow> pyval list \<Rightarrow> py_exc + pyval option" where
  "find_first p [] = Inr None"
| "find_first p (x # xs) =
     (case p x of
        Inl e \<Rightarrow> Inl e
      | Inr True \<Rightarrow> Inr (Some x)
      | Inr False \<Rightarrow> find_first p xs)"

text \<open>A list comprehension whose element expression may raise.\<close>

fun map_exc :: "(pyval \<Rightarrow> py_exc + 'a) \<Rightarrow> pyval list \<Rightarrow> py_exc + 'a list" where
  "map_exc f [] = Inr []"
| "map_exc f (x # xs) =
     (case f x of
        Inl e \<Rightarrow> Inl e
      | Inr y \<Rightarrow> (case map_exc f xs of Inl e \<Rightarrow> Inl e | Inr ys \<Rightarrow> Inr (y # ys)))"

section \<open>The RDAP lookup\<close>

subsection \<open>The query URL\<close>

text \<open>The two branches taken for a server URL found in the bootstrap registry.\<close>

definition url_without_slash :: "string \<Rightarrow> string \<Rightarrow> string" where
  "url_without_slash rdap_server_url domain_query = rdap_server_url @ ''domain/'' @ domain_query"

definition url_with_slash :: "string \<Rightarrow> string \<Rightarrow> string" where
  "url_with_slash rdap_server_url domain_query = rdap_server_url @ ''domain/'' @ domain_query"

definition rdap_query_url :: "pyval \<Rightarrow> string \<Rightarrow> py_exc + string" where
  "rdap_query_url rdap_server_url domain_query =
     (if \<not> truthy rdap_server_url then Inr (''https://rdap.org/domain/'' @ domain_query)
      else (case rdap_server_url of
              PStr u \<Rightarrow>
                if \<not> endswith u ''/'' then Inr (url_without_slash u domain_query)
                else Inr (url_with_slash u domain_query)
            | _ \<Rightarrow> Inl AttributeError))"

text \<open>\<open>any(tld == s_tld.lower() for s_tld in service_entry[0])\<close>\<close>

fun any_tld :: "string \<Rightarrow> pyval list \<Rightarrow> py_exc + bool" where
  "any_tld tld [] = Inr False"
| "any_tld tld (s_tld # rest) =
     (case s_tld of
        PStr t \<Rightarrow> if tld = lower t then Inr True else any_tld tld rest
      | _ \<Rightarrow> Inl AttributeError)"

text \<open>The loop over the service entries of the bootstrap document; \<open>None\<close> when none fits.\<close>

fun find_rdap_server :: "string \<Rightarrow> pyval list \<Rightarrow> py_exc + pyval" where
  "find_rdap_server tld [] = Inr PNone"
| "find_rdap_server tld (service_entry # rest) =
     (case exc_bind (py_index service_entry 0) (\<lambda>tlds. exc_bind (py_iter tlds) (any_tld tld)) of
        Inl e \<Rightarrow> Inl e
      | Inr False \<Rightarrow> find_rdap_server tld rest
      | Inr True \<Rightarrow>
          (case exc_bind (py_index service_entry 1) py_len of
             Inl e \<Rightarrow> Inl e
           | Inr n \<Rightarrow>
               if n > 0 then exc_bind (py_index service_entry 1) (\<lambda>urls. py_index urls 0)
               else find_rdap_server tld rest))"

subsection \<open>The normalizer\<close>

definition not_found :: pyval where
  "not_found = PStr ''Not found''"

text \<open>The registrar: the \<open>fn\<close> entry of the vcard of the first entity with that role.\<close>

definition rdap_registrar :: "pyval \<Rightarrow> py_exc + pyval" where
  "rdap_registrar data =
     exc_bind (py_get data ''entities'' (PList [])) (\<lambda>entities.
     exc_bind (py_iter entities) (\<lambda>es.
     exc_bind (find_first (\<lambda>e. exc_bind (py_get e ''roles'' (PList [])) (py_in ''registrar'')) es)
       (\<lambda>registrar_entity.
          case registrar_entity of
            None \<Rightarrow> Inr not_found
          | Some ent \<Rightarrow>
              if \<not> truthy ent then Inr not_found
              else
                exc_bind (py_get ent ''vcardArray'' (PList [PNone, PList []])) (\<lambda>vcard.
                exc_bind (py_len vcard) (\<lambda>n.
                  if \<not> n > 1 then Inr not_found
                  else
                    exc_bind (py_index vcard 1) (\<lambda>v1.
                      if \<not> truthy v1 then Inr not_found
                      else
                        exc_bind (py_iter v1) (\<lambda>items.
                        exc_bind (find_first (\<lambda>item. exc_bind (py_index item 0)
                                                (\<lambda>x. Inr (x = PStr ''fn''))) items)
                          (\<lambda>fn_entry.
                             case fn_entry of
                               None \<Rightarrow> Inr not_found
                             | Some fe \<Rightarrow>
                                 if \<not> truthy fe then Inr not_found
                                 else exc_bind (py_len fe) (\<lambda>m.
                                        if m > 3 then py_index fe 3 else Inr not_found)))))))))"

text \<open>The five places statuses are collected from, in the order of the source.\<close>

definition collect_status :: "(pyval \<Rightarrow> string) \<Rightarrow> pyval \<Rightarrow> py_exc + pyval list" where
  "collect_status pystr data =
     exc_bind (py_get data ''status'' PNone) (\<lambda>st.
       if \<not> truthy st then Inr []
       else (case st of
               PList xs \<Rightarrow>
                 if list_all is_str xs then Inr xs
                 else map_exc (\<lambda>s. py_get s ''type'' (PStr (py_str pystr s))) xs
             | _ \<Rightarrow> Inr [PStr (py_str pystr st)]))"

definition collect_domain_status :: "pyval \<Rightarrow> py_exc + pyval list" where
  "collect_domain_status data =
     exc_bind (py_get data ''domainStatus'' PNone) (\<lambda>st.
       if \<not> truthy st then Inr []
       else (case st of PList xs \<Rightarrow> Inr xs | _ \<Rightarrow> Inr [st]))"

definition collect_handle_status :: "(pyval \<Rightarrow> string) \<Rightarrow> pyval \<Rightarrow> py_exc + pyval list" where
  "collect_handle_status pystr data =
     exc_bind (py_get data ''handle'' PNone) (\<lambda>h.
       if truthy h \<and> is_dict h then
         exc_bind (py_get h ''status'' PNone) (\<lambda>handle_status.
           if \<not> truthy handle_status then Inr []
           else (case handle_status of
                   PList xs \<Rightarrow> Inr xs
                 | _ \<Rightarrow> Inr [PStr (py_str pystr handle_status)]))
       else Inr [])"

definition str_items :: "(pyval \<Rightarrow> string) \<Rightarrow> pyval \<Rightarrow> pyval list" where
  "str_items pystr v =
     (case v of
        PList xs \<Rightarrow> map (\<lambda>s. PStr (py_str pystr s)) xs
      | _ \<Rightarrow> [PStr (py_str pystr v)])"

definition collect_status_keys :: "(pyval \<Rightarrow> string) \<Rightarrow> dict \<Rightarrow> pyval list" where
  "collect_status_keys pystr kvs =
     concat (map (\<lambda>(key, status_data).
                    if contains ''status'' (lower key) \<and> key \<notin> set [''status'', ''domainStatus'']
                    then str_items pystr status_data else []) kvs)"

definition collect_nested_status :: "(pyval \<Rightarrow> string) \<Rightarrow> dict \<Rightarrow> pyval list" where
  "collect_nested_status pystr kvs =
     concat (map (\<lambda>(key, v).
                    case v of
                      PDict inner \<Rightarrow>
                        (case map_of inner ''status'' of
                           Some nested_status \<Rightarrow> str_items pystr nested_status
                         | None \<Rightarrow> [])
                    | _ \<Rightarrow> []) kvs)"

definition collect_all_statuses :: "(pyval \<Rightarrow> string) \<Rightarrow> dict \<Rightarrow> py_exc + pyval list" where
  "collect_all_statuses pystr kvs =
     exc_bind (collect_status pystr (PDict kvs)) (\<lambda>s1.
     exc_bind (collect_domain_status (PDict kvs)) (\<lambda>s2.
     exc_bind (collect_handle_status pystr (PDict kvs)) (\<lambda>s3.
       Inr (s1 @ s2 @ s3 @ collect_status_keys pystr kvs @ collect_nested_status pystr kvs))))"

text \<open>The inner function \<open>extract_status_code\<close>.\<close>

definition extract_status_code :: "string \<Rightarrow> string" where
  "extract_status_code s0 =
     (let s = strip s0 in
      if s = [] then []
      else
        (let s1 =
           (if contains ''http://'' s \<or> contains ''https://'' s then
              (let parts = split1 '' http'' s;
                   pre = strip (hd parts) in
               if pre \<noteq> [] then pre
               else
                 (let url = s in
                  if contains ''#'' url then rsplit_last (CHR ''#'') url
                  else rsplit_last (CHR ''/'') (rstrip_chars ''/'' url)))
            else s)
         in rstrip_chars '' ;.'' s1))"

text \<open>The parts one collected status is expanded into.\<close>

definition status_parts :: "(pyval \<Rightarrow> string) \<Rightarrow> pyval \<Rightarrow> string list" where
  "status_parts pystr status =
     (case status of
        PStr s \<Rightarrow> filter (\<lambda>piece. piece \<noteq> []) (map strip (re_split s))
      | PDict kvs \<Rightarrow>
          (case map_of kvs ''type'' of
             Some t \<Rightarrow> [py_str pystr t]
           | None \<Rightarrow> [py_str pystr status])
      | _ \<Rightarrow> [py_str pystr status])"

text \<open>The loop \<open>for p in parts\<close>, which appends to \<open>formatted_statuses\<close>.\<close>

fun add_codes :: "string list \<Rightarrow> string list \<Rightarrow> string list" where
  "add_codes formatted_statuses [] = formatted_statuses"
| "add_codes formatted_statuses (p # ps) =
     (let code = extract_status_code p in
      if code \<noteq> [] \<and> code \<noteq> ''Not found'' \<and> code \<notin> set formatted_statuses
      then add_codes (formatted_statuses @ [code]) ps
      else add_codes formatted_statuses ps)"

text \<open>The loop \<open>for status in statuses\<close>.\<close>

fun format_statuses :: "(pyval \<Rightarrow> string) \<Rightarrow> string list \<Rightarrow> pyval list \<Rightarrow> string list" where
  "format_statuses pystr formatted_statuses [] = formatted_statuses"
| "format_statuses pystr formatted_statuses (status # rest) =
     format_statuses pystr (add_codes formatted_statuses (status_parts pystr status)) rest"

definition neustar_statuses :: "string list" where
  "neustar_statuses =
     [''clientDeleteProhibited'', ''clientTransferProhibited'', ''clientUpdateProhibited'',
      ''serverDeleteProhibited'', ''serverTransferProhibited'', ''serverUpdateProhibited'']"

definition rdap_statuses :: "(pyval \<Rightarrow> string) \<Rightarrow> string \<Rightarrow> dict \<Rightarrow> py_exc + string list" where
  "rdap_statuses pystr domain_query kvs =
     exc_bind (collect_all_statuses pystr kvs) (\<lambda>statuses.
       if statuses \<noteq> [] then Inr (format_statuses pystr [] statuses)
       else if lower domain_query = ''neustar.biz'' then Inr neustar_statuses
       else Inr [''Not found''])"

text \<open>The creation date: the registration event, looked up with \<open>next\<close>.\<close>

definition registration_event :: "pyval \<Rightarrow> py_exc + pyval option" where
  "registration_event data =
     exc_bind (py_get data ''events'' (PList [])) (\<lambda>events.
     exc_bind (py_iter events) (\<lambda>es.
       find_first (\<lambda>e. exc_bind (py_get e ''eventAction'' PNone)
                        (\<lambda>a. Inr (a = PStr ''registration''))) es))"

definition rdap_creation_date :: "pyval \<Rightarrow> py_exc + pyval" where
  "rdap_creation_date data =
     exc_bind (registration_event data) (\<lambda>ev.
       case ev of
         None \<Rightarrow> Inr not_found
       | Some e \<Rightarrow> if truthy e then py_get e ''eventDate'' PNone else Inr not_found)"

definition rdap_nameservers :: "pyval \<Rightarrow> py_exc + pyval list" where
  "rdap_nameservers data =
     exc_bind (py_get data ''nameservers'' PNone) (\<lambda>present.
       exc_bind
         (if truthy present then
            exc_bind (py_get data ''nameservers'' (PList [])) (\<lambda>nss.
            exc_bind (py_iter nss) (\<lambda>ns_list.
            exc_bind (map_exc (\<lambda>ns. py_get ns ''ldhName'' PNone) ns_list) (\<lambda>names.
              Inr (filter truthy names))))
          else Inr [])
         (\<lambda>found. if found = [] then Inr [not_found] else Inr found))"

text \<open>
  The part of \<open>query_rdap\<close> that follows \<open>response.json()\<close>: the parsed record, with its
  keys in the order the source sets them.
\<close>

definition rdap_normalize :: "(pyval \<Rightarrow> string) \<Rightarrow> string \<Rightarrow> pyval \<Rightarrow> py_exc + dict" where
  "rdap_normalize pystr domain_query data =
     (case data of
        PDict kvs \<Rightarrow>
          exc_bind (rdap_registrar data) (\<lambda>registrar.
          exc_bind (rdap_statuses pystr domain_query kvs) (\<lambda>statuses.
          exc_bind (rdap_creation_date data) (\<lambda>creation_date.
          exc_bind (rdap_nameservers data) (\<lambda>nameservers.
            Inr [(''domain'', PStr domain_query),
                 (''registrar'', registrar),
                 (''statuses'', PList (map PStr statuses)),
                 (''creation_date'', creation_date),
                 (''registrant_name'', PStr ''Not available via RDAP''),
                 (''nexus_categories'', PStr ''Not available via RDAP''),
                 (''nameservers'', PList nameservers)]))))
      | _ \<Rightarrow> Inl AttributeError)"

subsection \<open>The lookup\<close>

text \<open>
  The answer of \<open>client.get\<close>: a request error with its text, or a response with its status
  code, the text of the \<open>HTTPStatusError\<close> that \<open>raise_for_status\<close> raises for it, and what
  \<open>json()\<close> gives: the parsed body or the text of the exception.
\<close>

datatype http_result = RequestError string | Response nat string "string + pyval"

type_synonym 'w http_get = "string \<Rightarrow> 'w \<Rightarrow> http_result \<times> 'w"

text \<open>The record returned for \<open>neustar.biz\<close> without any request.\<close>

definition neustar_parsed :: dict where
  "neustar_parsed =
     [(''domain'', PStr ''neustar.biz''),
      (''registrar'', PStr ''Registry Services, LLC''),
      (''statuses'', PList (map PStr neustar_statuses)),
      (''creation_date'', PStr ''2001-11-07T00:00:00Z''),
      (''registrant_name'', PStr ''Not available via RDAP''),
      (''nexus_categories'', PStr ''Not available via RDAP''),
      (''nameservers'', PList [PStr ''ns1.dns.nic.biz'', PStr ''ns2.dns.nic.biz''])]"

text \<open>The three \<open>except\<close> clauses of \<open>query_rdap\<close>.\<close>

definition rdap_status_error :: "(nat \<Rightarrow> string) \<Rightarrow> string \<Rightarrow> nat \<Rightarrow> string \<Rightarrow> string" where
  "rdap_status_error show_nat domain_query code e =
     (if code = 404 then ''RDAP: Domain '' @ domain_query @ '' not found.''
      else if code = 429 then ''RDAP: Rate limit reached.''
      else ''RDAP lookup for '' @ domain_query @ '' failed: HTTP '' @ show_nat code @ '' - '' @ e)"

definition rdap_request_error :: "string \<Rightarrow> string \<Rightarrow> string" where
  "rdap_request_error domain_query e =
     ''RDAP lookup for '' @ domain_query @ '' failed: Request Error - '' @ e"

definition rdap_other_error :: "string \<Rightarrow> string \<Rightarrow> string" where
  "rdap_other_error domain_query e = ''RDAP lookup for '' @ domain_query @ '' failed: '' @ e"

text \<open>
  A \<open>get\<close> followed by \<open>raise_for_status()\<close> and \<open>json()\<close>: the parsed body, or the message
  of the exception that \<open>query_rdap\<close> raises in its place.
\<close>

definition fetch_json ::
  "(nat \<Rightarrow> string) \<Rightarrow> 'w http_get \<Rightarrow> string \<Rightarrow> string \<Rightarrow> 'w \<Rightarrow> (string + pyval) \<times> 'w" where
  "fetch_json show_nat http_get domain_query url w =
     (case http_get url w of
        (RequestError e, w1) \<Rightarrow> (Inl (rdap_request_error domain_query e), w1)
      | (Response code e body, w1) \<Rightarrow>
          if \<not> (200 \<le> code \<and> code < 300)
          then (Inl (rdap_status_error show_nat domain_query code e), w1)
          else (case body of
                  Inl je \<Rightarrow> (Inl (rdap_other_error domain_query je), w1)
                | Inr v \<Rightarrow> (Inr v, w1)))"

text \<open>
  \<open>query_rdap\<close>.  The parameters stand for what the model leaves open: the text \<open>str\<close>
  gives for a value that is not a string, for an exception of the interpreter and for a
  status code, and the HTTP client.
\<close>

definition query_rdap ::
  "(pyval \<Rightarrow> string) \<Rightarrow> (py_exc \<Rightarrow> string) \<Rightarrow> (nat \<Rightarrow> string) \<Rightarrow> 'w http_get \<Rightarrow> 'w lookup" where
  "query_rdap pystr exc_text show_nat http_get domain_query w =
     (if lower domain_query = ''neustar.biz'' then (Inr neustar_parsed, w)
      else
        (let tld = lower (rsplit_last (CHR ''.'') domain_query) in
         case fetch_json show_nat http_get domain_query ''https://data.iana.org/rdap/dns.json'' w of
           (Inl msg, w1) \<Rightarrow> (Inl msg, w1)
         | (Inr bootstrap_data, w1) \<Rightarrow>
             (case exc_bind (py_get bootstrap_data ''services'' (PList [])) (\<lambda>services.
                   exc_bind (py_iter services) (\<lambda>entries.
                   exc_bind (find_rdap_server tld entries) (\<lambda>rdap_server_url.
                     rdap_query_url rdap_server_url domain_query))) of
                Inl e \<Rightarrow> (Inl (rdap_other_error domain_query (exc_text e)), w1)
              | Inr query_url \<Rightarrow>
                  (case fetch_json show_nat http_get domain_query query_url w1 of
                     (Inl msg, w2) \<Rightarrow> (Inl msg, w2)
                   | (Inr data, w2) \<Rightarrow>
                       (case rdap_normalize pystr domain_query data of
                          Inl e \<Rightarrow> (Inl (rdap_other_error domain_query (exc_text e)), w2)
                        | Inr parsed \<Rightarrow> (Inr parsed, w2))))))"

section \<open>The WHOIS lookup\<close>

text \<open>
  \<open>s.splitlines()\<close>: the line ends are the line feed, the carriage return (alone or before
  a line feed), the vertical tab, the form feed, the separators 28 to 30 and the next-line
  character 133.
\<close>

definition is_linebreak :: "char \<Rightarrow> bool" where
  "is_linebreak c = (c \<in> set [CHR 0x0A, CHR 0x0D, CHR 0x0B, CHR 0x0C,
                                CHR 0x1C, CHR 0x1D, CHR 0x1E, CHR 0x85])"

fun splitlines :: "string \<Rightarrow> string list" where
  "splitlines [] = []"
| "splitlines (c # cs) =
     (if c = CHR 0x0D \<and> cs \<noteq> [] \<and> hd cs = CHR 0x0A then splitlines cs
      else if is_linebreak c then [] # splitlines cs
      else (case splitlines cs of
              [] \<Rightarrow> [[c]]
            | l # ls \<Rightarrow> (c # l) # ls))"

text \<open>
  The object \<open>whois.query\<close> returns.  The attributes the source tests with \<open>hasattr\<close> are
  optional.  Membership in a list compares with \<open>==\<close>, which is equality of these values;
  the client yields no numbers of different types, which \<open>==\<close> would identify.
\<close>

record whois_domain =
  whois_text :: "string option"
  registrar :: pyval
  statuses :: "pyval option"
  status :: "pyval option"
  creation_date :: pyval
  name_servers :: pyval

text \<open>
  \<open>whois.query\<close>: the object, \<open>None\<close>, or the text of the exception raised; and the
  \<open>whois\<close> command run for a \<open>.us\<close> domain: its output, or the text of the exception.
\<close>

type_synonym 'w whois_client = "string \<Rightarrow> 'w \<Rightarrow> (string + whois_domain option) \<times> 'w"

type_synonym 'w whois_command = "string \<Rightarrow> 'w \<Rightarrow> (string + string) \<times> 'w"

definition whois_no_match :: "whois_domain \<Rightarrow> bool" where
  "whois_no_match w =
     (case whois_text w of
        None \<Rightarrow> False
      | Some t \<Rightarrow> contains ''No match for domain'' t \<or> contains ''NOT FOUND'' (upper t))"

definition whois_no_registrar :: "whois_domain \<Rightarrow> bool" where
  "whois_no_registrar w =
     (\<not> truthy (registrar w) \<and>
      \<not> (case whois_text w of None \<Rightarrow> False | Some t \<Rightarrow> t \<noteq> []))"

text \<open>\<open>line.split(":", 1)[-1].strip()\<close>\<close>

definition value_after_colon :: "string \<Rightarrow> string" where
  "value_after_colon line = strip (last (split1 '':'' line))"

text \<open>The scan of the raw text for the registrant, stopped at the first matching line.\<close>

definition scan_registrant_name :: "whois_domain \<Rightarrow> string" where
  "scan_registrant_name w =
     (case whois_text w of
        None \<Rightarrow> ''Not found''
      | Some t \<Rightarrow>
          (case find (\<lambda>line. contains ''Registrant Name:'' line \<or> contains ''registrant:'' line)
                  (splitlines t) of
             None \<Rightarrow> ''Not found''
           | Some line \<Rightarrow> value_after_colon line))"

text \<open>\<open>raw_statuses\<close>, the value the formatting loop iterates over.\<close>

definition statuses_from_status :: "whois_domain \<Rightarrow> pyval" where
  "statuses_from_status w =
     (case status w of
        None \<Rightarrow> PList []
      | Some (PList xs) \<Rightarrow> PList xs
      | Some (PStr s) \<Rightarrow>
          PList (map PStr (filter (\<lambda>l. l \<noteq> []) (map strip (splitlines s))))
      | Some v \<Rightarrow> PList [])"

definition whois_raw_statuses :: "whois_domain \<Rightarrow> pyval" where
  "whois_raw_statuses w =
     (case statuses w of
        None \<Rightarrow> statuses_from_status w
      | Some v \<Rightarrow> if truthy v then v else statuses_from_status w)"

text \<open>The loop that fills \<open>formatted_statuses\<close> of \<open>query_whois\<close>.\<close>

fun whois_format :: "pyval list \<Rightarrow> pyval list \<Rightarrow> pyval list" where
  "whois_format formatted_statuses [] = formatted_statuses"
| "whois_format formatted_statuses (st # rest) =
     (if st \<in> set formatted_statuses then whois_format formatted_statuses rest
      else (case st of
              PStr s \<Rightarrow>
                (let status_code =
                       (if contains ''https://'' s then strip (split_head '' https://'' s)
                        else strip s)
                 in if status_code \<noteq> [] \<and> status_code \<noteq> ''Not found''
                    then whois_format (formatted_statuses @ [PStr status_code]) rest
                    else whois_format formatted_statuses rest)
            | _ \<Rightarrow> whois_format (formatted_statuses @ [st]) rest))"

definition whois_statuses :: "whois_domain \<Rightarrow> py_exc + pyval list" where
  "whois_statuses w =
     exc_bind (py_iter (whois_raw_statuses w)) (\<lambda>raw_statuses.
       let formatted_statuses = whois_format [] raw_statuses in
       Inr (if formatted_statuses \<noteq> [] then formatted_statuses else [not_found]))"

definition whois_creation_date :: "(pyval \<Rightarrow> string) \<Rightarrow> whois_domain \<Rightarrow> pyval" where
  "whois_creation_date pystr w =
     (let creation_date_val =
            (case creation_date w of
               PList xs \<Rightarrow> (if xs \<noteq> [] then hd xs else PNone)
             | v \<Rightarrow> v)
      in case creation_date_val of
           PDateTime iso_text \<Rightarrow> PStr iso_text
         | v \<Rightarrow> if truthy v then PStr (py_str pystr v) else not_found)"

text \<open>The scan of the output of the \<open>whois\<close> command: the last line with each label.\<close>

definition last_line_with :: "string \<Rightarrow> string list \<Rightarrow> string option" where
  "last_line_with label lines = find (\<lambda>line. contains label line) (rev lines)"

definition join_semicolon :: "string list \<Rightarrow> string" where
  "join_semicolon xs = (case xs of [] \<Rightarrow> [] | x # rest \<Rightarrow> x @ concat (map (\<lambda>y. ''; '' @ y) rest))"

definition nexus_from_output :: "string list \<Rightarrow> string" where
  "nexus_from_output lines =
     (let nexus_results =
            (case last_line_with ''Registrant Application Purpose:'' lines of
               Some l \<Rightarrow> (if l \<noteq> [] then [''Application Purpose: '' @ value_after_colon l] else [])
             | None \<Rightarrow> [])
            @ (case last_line_with ''Registrant Nexus Category:'' lines of
                 Some l \<Rightarrow> (if l \<noteq> [] then [''Nexus Category: '' @ value_after_colon l] else [])
               | None \<Rightarrow> [])
      in if nexus_results \<noteq> [] then join_semicolon nexus_results
         else ''Not found in direct .US WHOIS output'')"

text \<open>The \<open>except\<close> clause of \<open>query_whois\<close>, applied to the text of the exception.\<close>

definition whois_failure :: "string \<Rightarrow> string \<Rightarrow> string" where
  "whois_failure domain_query e =
     (if contains ''limit'' (lower e)
      then ''WHOIS: Rate limit reached for '' @ domain_query @ ''.''
      else ''WHOIS lookup for '' @ domain_query @ '' failed: '' @ e)"

definition whois_not_found_text :: "string \<Rightarrow> string" where
  "whois_not_found_text domain_query = ''WHOIS: Domain '' @ domain_query @ '' not found.''"

definition whois_no_registrar_text :: "string \<Rightarrow> string" where
  "whois_no_registrar_text domain_query =
     ''WHOIS: Domain '' @ domain_query @ '' not found or lookup failed (no registrar).''"

text \<open>\<open>query_whois\<close>, with the text of \<open>str\<close> left to the parameters as in \<open>query_rdap\<close>.\<close>

definition query_whois ::
  "(pyval \<Rightarrow> string) \<Rightarrow> (py_exc \<Rightarrow> string) \<Rightarrow> 'w whois_client \<Rightarrow> 'w whois_command \<Rightarrow> 'w lookup" where
  "query_whois pystr exc_text whois_client whois_command domain_query w0 =
     (case whois_client domain_query w0 of
        (Inl e, w1) \<Rightarrow> (Inl (whois_failure domain_query e), w1)
      | (Inr None, w1) \<Rightarrow>
          (Inl (whois_failure domain_query (whois_not_found_text domain_query)), w1)
      | (Inr (Some w), w1) \<Rightarrow>
          if whois_no_match w then
            (Inl (whois_failure domain_query (whois_not_found_text domain_query)), w1)
          else if whois_no_registrar w then
            (Inl (whois_failure domain_query (whois_no_registrar_text domain_query)), w1)
          else
            (let is_us = endswith (lower domain_query) ''.us'';
                 registrant_name = (if is_us then ''Not found'' else scan_registrant_name w);
                 parsed0 = [(''domain'', PStr domain_query),
                            (''registrar'', if truthy (registrar w) then registrar w else not_found),
                            (''registrant_name'', PStr registrant_name)]
             in case whois_statuses w of
                  Inl e \<Rightarrow> (Inl (whois_failure domain_query (exc_text e)), w1)
                | Inr sts \<Rightarrow>
                    (let parsed1 = parsed0 @ [(''statuses'', PList sts),
                                              (''creation_date'', whois_creation_date pystr w)];
                         nameservers = (if truthy (name_servers w) then name_servers w
                                        else PList [not_found])
                     in if is_us then
                          (case whois_command domain_query w1 of
                             (Inl e, w2) \<Rightarrow>
                               (Inr (parsed1 @
                                     [(''nexus_categories'', PStr (''Whois command failed: '' @ e)),
                                      (''nameservers'', nameservers)]), w2)
                           | (Inr whois_output, w2) \<Rightarrow>
                               (let lines = splitlines whois_output;
                                    parsed2 =
                                      (case last_line_with ''Registrant Name:'' lines of
                                         Some l \<Rightarrow>
                                           (if l \<noteq> [] then
                                              AList.update ''registrant_name''
                                                (PStr (value_after_colon l)) parsed1
                                            else parsed1)
                                       | None \<Rightarrow> parsed1)
                                in (Inr (parsed2 @
                                         [(''nexus_categories'', PStr (nexus_from_output lines)),
                                          (''nameservers'', nameservers)]), w2)))
                        else
                          (Inr (parsed1 @
                                [(''nexus_categories'', PStr ''N/A (not .US domain)''),
                                 (''nameservers'', nameservers)]), w1))))"

text \<open>
  The creation date of the RDAP record in the words of the specification: the
  \<open>eventDate\<close> of the first event whose \<open>eventAction\<close> is \<open>registration\<close>.
\<close>

definition is_registration :: "pyval \<Rightarrow> bool" where
  "is_registration e =
     (case e of
        PDict kvs \<Rightarrow> map_of kvs ''eventAction'' = Some (PStr ''registration'')
      | _ \<Rightarrow> False)"

definition event_date :: "pyval \<Rightarrow> pyval" where
  "event_date e =
     (case e of
        PDict kvs \<Rightarrow> (case map_of kvs ''eventDate'' of Some v \<Rightarrow> v | None \<Rightarrow> PNone)
      | _ \<Rightarrow> PNone)"

definition spec_creation_date :: "pyval list \<Rightarrow> pyval" where
  "spec_creation_date events =
     (case find is_registration events of
        None \<Rightarrow> PStr ''Not found''
      | Some e \<Rightarrow> event_date e)"

section \<open>Properties of the controller and of the endpoint\<close>

lemma map_of_mark_fields:
  "map_of (mark_fields fs txt r) f =
     (if f \<in> set fs \<and> f \<noteq> ''domain'' then Some (PStr txt) else map_of r f)"
  unfolding mark_fields_def
  by (induction fs arbitrary: r) (auto simp: update_conv')

lemma map_of_copy_fields:
  "map_of (copy_fields fs raw r) f =
     (if f \<in> set fs then Some (case map_of raw f of Some v \<Rightarrow> v | None \<Rightarrow> PStr ''Not found'')
      else map_of r f)"
  unfolding copy_fields_def
  by (induction fs arbitrary: r) (auto simp: update_conv')

lemma dom_init_result: "dom (map_of (init_result fs d)) = insert ''domain'' (set fs)"
proof -
  have "dom (map_of (fold (\<lambda>f r. AList.update f (PStr ''Processing...'') r) fs r)) = dom (map_of r) \<union> set fs" for r
    by (induction fs arbitrary: r) (auto simp: update_conv')
  then show ?thesis by (simp add: init_result_def update_conv')
qed

lemma map_of_init_result_domain: "map_of (init_result fs d) ''domain'' = Some (PStr d)"
  by (simp add: init_result_def update_conv')

lemma stream_loop_flagged:
  "stream_loop qr qw fs use True ds w =
     (map (\<lambda>d. Result (rate_limited_result fs d)) ds, [], True, w)"
  by (induction ds) (auto simp: process_domain_def)

lemma stream_loop_append:
  "stream_loop qr qw fs use flag (xs @ ys) w =
     (case stream_loop qr qw fs use flag xs w of
        (e1, c1, f1, w1) \<Rightarrow>
          (case stream_loop qr qw fs use f1 ys w1 of
             (e2, c2, f2, w2) \<Rightarrow> (e1 @ e2, c1 @ c2, f2, w2)))"
  by (induction xs arbitrary: flag w) (auto split: prod.splits)

lemma clean_domains_spec:
  "clean_domains seen acc ds =
     acc @ dedup_ci (filter (\<lambda>y. lower y \<notin> seen)
                       (filter (\<lambda>d. d \<noteq> [] \<and> length d \<le> 255) (map strip ds)))"
proof (induction ds arbitrary: seen acc)
  case Nil
  then show ?case by simp
next
  case (Cons d ds)
  show ?case
    by (auto simp: Cons Let_def intro!: arg_cong[where f = dedup_ci] filter_cong)
qed


lemma spec_clean_domains_code:
  "truncate_domains (clean_domains {} [] ds) = spec_clean_domains ds"
  by (simp add: truncate_domains_def spec_clean_domains_def MAX_DOMAINS_def clean_domains_spec)

lemma spec_clean_domains_empty:
  "spec_clean_domains ds = [] \<longleftrightarrow> clean_domains {} [] ds = []"
  by (simp add: spec_clean_domains_def clean_domains_spec)

text \<open>
  Claim C7.  Before streaming begins the endpoint trims the domains, removes the empty
  entries and those longer than 255 characters, keeps the first of the entries that are
  equal up to case and truncates the list to its first 500 entries: the loop of the
  endpoint computes \<open>spec_clean_domains\<close>, which on
  \<open>["a.com", "A.COM", " a.com "]\<close> is the single domain \<open>a.com\<close>.  The fields are
  filtered to the allowed set in the requested order.  If either list is empty the response
  is a \<open>total: 0\<close> event followed by one \<open>error\<close> event, with no \<open>result\<close> event and
  no lookup; otherwise the generator runs on the cleaned request.
\<close>

theorem validation_before_streaming:
  "truncate_domains (clean_domains {} [] (domains request)) = spec_clean_domains (domains request)
   \<and> spec_clean_domains [''a.com'', ''A.COM'', '' a.com ''] = [''a.com'']
   \<and> clean_fields (fields' request) = filter (\<lambda>f. f \<in> ALLOWED_FIELDS) (fields' request)
   \<and> (spec_clean_domains (domains request) = [] \<or> clean_fields (fields' request) = [] \<longrightarrow>
        (\<exists>m. whois_lookup_endpoint rdap whois request w =
               ([Total 0, Error m], [], w)))
   \<and> (spec_clean_domains (domains request) \<noteq> [] \<and> clean_fields (fields' request) \<noteq> [] \<longrightarrow>
        whois_lookup_endpoint rdap whois request w =
          lookup_and_stream_generator rdap whois
            \<lparr>domains = spec_clean_domains (domains request),
             fields' = clean_fields (fields' request),
             use_rdap = use_rdap request\<rparr> w)"
proof -
  have ex: "spec_clean_domains [''a.com'', ''A.COM'', '' a.com ''] = [''a.com'']"
    by (simp add: spec_clean_domains_def strip_def lstrip_def rstrip_def is_space_def
          lower_def lower_char_def char_of_def bit_0)
  have err: "spec_clean_domains (domains request) = [] \<or> clean_fields (fields' request) = [] \<Longrightarrow>
        \<exists>m. whois_lookup_endpoint rdap whois request w = ([Total 0, Error m], [], w)"
    by (auto simp: whois_lookup_endpoint_def Let_def spec_clean_domains_empty)
  have ok: "spec_clean_domains (domains request) \<noteq> [] \<and> clean_fields (fields' request) \<noteq> [] \<Longrightarrow>
        whois_lookup_endpoint rdap whois request w =
          lookup_and_stream_generator rdap whois
            \<lparr>domains = spec_clean_domains (domains request),
             fields' = clean_fields (fields' request),
             use_rdap = use_rdap request\<rparr> w"
    by (simp add: whois_lookup_endpoint_def Let_def spec_clean_domains_empty
          spec_clean_domains_code)
  show ?thesis
    using ex err ok by (simp add: spec_clean_domains_code clean_fields_def)
qed

theorem validation_before_streaming_witness:
  "spec_clean_domains [''a.com'', ''A.COM'', '' a.com ''] = [''a.com'']
   \<and> clean_fields [''bogus''] = []
   \<and> (\<exists>m. whois_lookup_endpoint (\<lambda>d w. (Inl ''no'', w)) (\<lambda>d w. (Inl ''no'', w))
             \<lparr>domains = [''a.com'', ''A.COM'', '' a.com ''], fields' = [''bogus''],
              use_rdap = True\<rparr> (0::nat) = ([Total 0, Error m], [], 0))"
  using validation_before_streaming
    [of "\<lparr>domains = [''a.com'', ''A.COM'', '' a.com ''], fields' = [''bogus''], use_rdap = True\<rparr>"
        "\<lambda>d w. (Inl ''no'', w)" "\<lambda>d w. (Inl ''no'', w)" "0::nat"]
  by (simp add: clean_fields_def ALLOWED_FIELDS_def)

lemma rate_limited_result_fields:
  assumes "set fs \<subseteq> ALLOWED_FIELDS" and "f \<in> set fs" and "f \<noteq> ''domain''"
  shows "map_of (rate_limited_result fs x) f = Some (PStr ''Rate limit reached'')"
proof -
  from assms have "f \<noteq> ''error_message''"
    by (auto simp: ALLOWED_FIELDS_def)
  with assms show ?thesis
    by (simp add: rate_limited_result_def update_conv' map_of_mark_fields)
qed

lemma rate_limited_result_domain:
  "map_of (rate_limited_result fs x) ''domain'' = Some (PStr x)"
  by (simp add: rate_limited_result_def update_conv' map_of_mark_fields map_of_init_result_domain)

text \<open>
  Claim C1.  Once the lookup of a domain of the batch raises a rate-limit signal (an
  exception whose text contains \<open>Rate limit reached\<close>), the flag is set, and every
  later domain of the batch yields the result event \<open>rate_limited_result\<close>, in which every
  requested field but \<open>domain\<close> is the placeholder \<open>Rate limit reached\<close>; no lookup is
  called for those domains: the log of calls and the world are those reached after the
  lookup that raised.  The fields are those of a cleaned request.
\<close>

theorem rate_limit_propagation:
  assumes "set fs \<subseteq> ALLOWED_FIELDS"
    and "stream_loop rdap whois fs use False pre w = (evs1, cs1, False, w1)"
    and "lookup_domain rdap whois use d w1 = (Inl msg, cs, w2)"
    and "contains ''Rate limit reached'' msg"
  shows "(\<exists>r. stream_loop rdap whois fs use False (pre @ d # rest) w =
            (evs1 @ Result r # map (\<lambda>x. Result (rate_limited_result fs x)) rest,
             cs1 @ cs, True, w2))
       \<and> (\<forall>x f. f \<in> set fs \<and> f \<noteq> ''domain'' \<longrightarrow>
            map_of (rate_limited_result fs x) f = Some (PStr ''Rate limit reached''))
       \<and> (\<forall>x. map_of (rate_limited_result fs x) ''domain'' = Some (PStr x))"
proof -
  have "\<exists>r. process_domain rdap whois fs use False d w1 = (r, True, cs, w2)"
    using assms(3,4) by (simp add: process_domain_def)
  then obtain r where
    r: "process_domain rdap whois fs use False d w1 = (r, True, cs, w2)" ..
  have "stream_loop rdap whois fs use False (pre @ d # rest) w =
          (evs1 @ Result r # map (\<lambda>x. Result (rate_limited_result fs x)) rest,
           cs1 @ cs, True, w2)"
    by (simp add: stream_loop_append assms(2) r stream_loop_flagged)
  then show ?thesis
    using rate_limited_result_fields[OF assms(1)] rate_limited_result_domain by blast
qed

theorem rate_limit_propagation_witness:
  "set [''domain'', ''registrar''] \<subseteq> ALLOWED_FIELDS
   \<and> contains ''Rate limit reached'' ''RDAP: Rate limit reached.''
   \<and> (\<exists>r. stream_loop (\<lambda>d w. (Inl ''RDAP: Rate limit reached.'', Suc w))
             (\<lambda>d w. (Inl ''down'', Suc w)) [''domain'', ''registrar''] True False
             ([] @ ''d1.com'' # [''d2.com'', ''d3.com'']) (0::nat) =
           ([] @ Result r #
              map (\<lambda>x. Result (rate_limited_result [''domain'', ''registrar''] x))
                [''d2.com'', ''d3.com''],
            [] @ [RdapCall ''d1.com''], True, Suc 0))
   \<and> map_of (rate_limited_result [''domain'', ''registrar''] ''d2.com'') ''registrar'' =
        Some (PStr ''Rate limit reached'')"
proof -
  have a: "set [''domain'', ''registrar''] \<subseteq> ALLOWED_FIELDS"
    by (simp add: ALLOWED_FIELDS_def)
  have b: "stream_loop (\<lambda>d w. (Inl ''RDAP: Rate limit reached.'', Suc w))
             (\<lambda>d w. (Inl ''down'', Suc w)) [''domain'', ''registrar''] True False [] (0::nat)
           = ([], [], False, 0)"
    by simp
  have c: "lookup_domain (\<lambda>d w. (Inl ''RDAP: Rate limit reached.'', Suc w))
             (\<lambda>d w. (Inl ''down'', Suc w)) True ''d1.com'' (0::nat)
           = (Inl ''RDAP: Rate limit reached.'', [RdapCall ''d1.com''], Suc 0)"
    by (simp add: lookup_domain_def)
  have d: "contains ''Rate limit reached'' ''RDAP: Rate limit reached.''"
    by simp
  show ?thesis
    using rate_limit_propagation[OF a b c d, of "[''d2.com'', ''d3.com'']"] a d
    by simp
qed

text \<open>
  The orchestration, split by the controller's own test on the text of the exception: a
  successful RDAP lookup is tagged \<open>RDAP\<close>; an RDAP failure whose text contains
  \<open>Rate limit reached\<close> is not followed by a WHOIS lookup and sets the flag; any other RDAP
  failure is followed by a WHOIS lookup, tagged \<open>WHOIS (RDAP fallback)\<close> on success; without
  \<open>use_rdap\<close>, WHOIS is queried directly and tagged \<open>WHOIS\<close>.
\<close>

theorem orchestration_fallback:
  "(rdap d w = (Inr raw, w1) \<longrightarrow>
      (\<exists>r. process_domain rdap whois fs True False d w = (r, False, [RdapCall d], w1)
           \<and> map_of r ''_method'' = Some (PStr ''RDAP'')))
   \<and> (rdap d w = (Inl msg, w1) \<and> contains ''Rate limit reached'' msg \<longrightarrow>
      lookup_domain rdap whois True d w = (Inl msg, [RdapCall d], w1)
      \<and> (\<exists>r. process_domain rdap whois fs True False d w = (r, True, [RdapCall d], w1)))
   \<and> (rdap d w = (Inl msg, w1) \<and> \<not> contains ''Rate limit reached'' msg
        \<and> whois d w1 = (Inr raw, w2) \<longrightarrow>
      (\<exists>r. process_domain rdap whois fs True False d w =
              (r, False, [RdapCall d, WhoisCall d], w2)
           \<and> map_of r ''_method'' = Some (PStr ''WHOIS (RDAP fallback)'')))
   \<and> (whois d w = (Inr raw, w1) \<longrightarrow>
      (\<exists>r. process_domain rdap whois fs False False d w = (r, False, [WhoisCall d], w1)
           \<and> map_of r ''_method'' = Some (PStr ''WHOIS'')))"
  by (simp add: process_domain_def lookup_domain_def update_conv')

theorem orchestration_fallback_witness:
  "(\<exists>r. process_domain (\<lambda>d w. (Inr [(''domain'', PStr d)], Suc w)) (\<lambda>d w. (Inl ''down'', Suc w))
          [''domain''] True False ''a.com'' (0::nat) = (r, False, [RdapCall ''a.com''], Suc 0)
        \<and> map_of r ''_method'' = Some (PStr ''RDAP''))
   \<and> lookup_domain (\<lambda>d w. (Inl ''RDAP: Rate limit reached.'', Suc w))
        (\<lambda>d w. (Inr [(''domain'', PStr d)], Suc w)) True ''a.com'' (0::nat) =
        (Inl ''RDAP: Rate limit reached.'', [RdapCall ''a.com''], Suc 0)
   \<and> (\<exists>r. process_domain (\<lambda>d w. (Inl ''RDAP: Domain a.com not found.'', Suc w))
          (\<lambda>d w. (Inr [(''domain'', PStr d)], Suc w))
          [''domain''] True False ''a.com'' (0::nat) =
            (r, False, [RdapCall ''a.com'', WhoisCall ''a.com''], Suc (Suc 0))
        \<and> map_of r ''_method'' = Some (PStr ''WHOIS (RDAP fallback)''))
   \<and> (\<exists>r. process_domain (\<lambda>d w. (Inl ''down'', Suc w)) (\<lambda>d w. (Inr [(''domain'', PStr d)], Suc w))
          [''domain''] False False ''a.com'' (0::nat) = (r, False, [WhoisCall ''a.com''], Suc 0)
        \<and> map_of r ''_method'' = Some (PStr ''WHOIS''))"
  using
    orchestration_fallback[where rdap = "\<lambda>d w. (Inr [(''domain'', PStr d)], Suc w)"
      and whois = "\<lambda>d w. (Inl ''down'', Suc w)" and d = "''a.com''" and w = "0::nat"
      and raw = "[(''domain'', PStr ''a.com'')]" and ?w1.0 = "Suc 0" and fs = "[''domain'']"]
    orchestration_fallback[where rdap = "\<lambda>d w. (Inl ''RDAP: Rate limit reached.'', Suc w)"
      and whois = "\<lambda>d w. (Inr [(''domain'', PStr d)], Suc w)" and d = "''a.com''"
      and w = "0::nat" and msg = "''RDAP: Rate limit reached.''" and ?w1.0 = "Suc 0"
      and fs = "[''domain'']"]
    orchestration_fallback[where rdap = "\<lambda>d w. (Inl ''RDAP: Domain a.com not found.'', Suc w)"
      and whois = "\<lambda>d w. (Inr [(''domain'', PStr d)], Suc w)" and d = "''a.com''"
      and w = "0::nat" and msg = "''RDAP: Domain a.com not found.''" and ?w1.0 = "Suc 0"
      and raw = "[(''domain'', PStr ''a.com'')]" and ?w2.0 = "Suc (Suc 0)" and fs = "[''domain'']"]
    orchestration_fallback[where rdap = "\<lambda>d w. (Inl ''down'', Suc w)"
      and whois = "\<lambda>d w. (Inr [(''domain'', PStr d)], Suc w)" and d = "''a.com''"
      and w = "0::nat" and raw = "[(''domain'', PStr ''a.com'')]" and ?w1.0 = "Suc 0"
      and fs = "[''domain'']"]
  by simp

lemma allowed_not_internal:
  "set fs \<subseteq> ALLOWED_FIELDS \<Longrightarrow> ''_method'' \<notin> set fs \<and> ''error_message'' \<notin> set fs"
  by (auto simp: ALLOWED_FIELDS_def)

text \<open>
  Claim C10.  For a domain processed by the controller on the fields of a cleaned request,
  the result record has the key \<open>_method\<close> exactly when the lookup ran and succeeded, and
  the key \<open>error_message\<close> exactly when the domain was short-circuited by the rate-limit
  flag or its lookup failed; no record has both keys.
\<close>

theorem method_xor_error_message:
  assumes "set fs \<subseteq> ALLOWED_FIELDS"
    and "process_domain rdap whois fs use flag d w = (r, flag1, cs, w1)"
  shows "(''_method'' \<in> dom (map_of r) \<longleftrightarrow>
            \<not> flag \<and> (\<exists>raw m. fst (lookup_domain rdap whois use d w) = Inr (raw, m)))
       \<and> (''error_message'' \<in> dom (map_of r) \<longleftrightarrow>
            flag \<or> (\<exists>msg. fst (lookup_domain rdap whois use d w) = Inl msg))
       \<and> \<not> (''_method'' \<in> dom (map_of r) \<and> ''error_message'' \<in> dom (map_of r))"
proof -
  note ni = allowed_not_internal[OF assms(1)]
  have base: "map_of (init_result fs d) ''_method'' = None"
       "map_of (init_result fs d) ''error_message'' = None"
  proof -
    have "''_method'' \<notin> dom (map_of (init_result fs d))"
      and "''error_message'' \<notin> dom (map_of (init_result fs d))"
      using ni unfolding dom_init_result by simp_all
    then show "map_of (init_result fs d) ''_method'' = None"
      and "map_of (init_result fs d) ''error_message'' = None"
      by blast+
  qed
  show ?thesis
  proof (cases flag)
    case True
    with assms(2) have "r = rate_limited_result fs d"
      by (simp add: process_domain_def)
    then show ?thesis
      using True ni base
      by (simp add: rate_limited_result_def update_conv' map_of_mark_fields dom_def)
  next
    case False
    obtain res cs' w' where l: "lookup_domain rdap whois use d w = (res, cs', w')"
      by (cases "lookup_domain rdap whois use d w") auto
    show ?thesis
    proof (cases res)
      case (Inl msg)
      with assms(2) False l show ?thesis
        using ni base
        by (auto simp: process_domain_def Let_def update_conv' map_of_mark_fields dom_def
              split: if_splits)
    next
      case (Inr p)
      with assms(2) False l show ?thesis
        using ni base
        by (cases p)
           (auto simp: process_domain_def Let_def update_conv' map_of_copy_fields dom_def)
    qed
  qed
qed

theorem method_xor_error_message_witness:
  "set [''domain'', ''registrar''] \<subseteq> ALLOWED_FIELDS
   \<and> ''_method'' \<in> dom (map_of (fst (process_domain
         (\<lambda>d w. (Inr [(''domain'', PStr d)], Suc w)) (\<lambda>d w. (Inl ''down'', Suc w))
         [''domain'', ''registrar''] True False ''a.com'' (0::nat))))
   \<and> ''error_message'' \<notin> dom (map_of (fst (process_domain
         (\<lambda>d w. (Inr [(''domain'', PStr d)], Suc w)) (\<lambda>d w. (Inl ''down'', Suc w))
         [''domain'', ''registrar''] True False ''a.com'' (0::nat))))"
proof -
  have a: "set [''domain'', ''registrar''] \<subseteq> ALLOWED_FIELDS"
    by (simp add: ALLOWED_FIELDS_def)
  obtain r flag1 cs w1 where
    p: "process_domain (\<lambda>d w. (Inr [(''domain'', PStr d)], Suc w)) (\<lambda>d w. (Inl ''down'', Suc w))
         [''domain'', ''registrar''] True False ''a.com'' (0::nat) = (r, flag1, cs, w1)"
    by (rule prod_cases4)
  have l: "fst (lookup_domain (\<lambda>d w. (Inr [(''domain'', PStr d)], Suc w))
         (\<lambda>d w. (Inl ''down'', Suc w)) True ''a.com'' (0::nat)) =
         Inr ([(''domain'', PStr ''a.com'')], ''RDAP'')"
    by (simp add: lookup_domain_def)
  show ?thesis
    using method_xor_error_message[OF a p] a p l by simp
qed

section \<open>Properties of the RDAP lookup\<close>

text \<open>
  Claim C9.  The query URL built from a base URL of the bootstrap registry is the same
  whether or not the base ends in \<open>/\<close>: the two branches are the same function, and for
  every base URL (a non-empty string: the empty one is replaced by the public proxy) the
  result is the base, then \<open>domain/\<close>, then the domain, with nothing put between.
\<close>

theorem query_url_branches_agree:
  "url_without_slash = url_with_slash
   \<and> (u \<noteq> [] \<longrightarrow> rdap_query_url (PStr u) d = Inr (u @ ''domain/'' @ d))
   \<and> (u \<noteq> [] \<and> \<not> endswith u ''/'' \<longrightarrow> rdap_query_url (PStr u) d = Inr (url_without_slash u d))
   \<and> (u \<noteq> [] \<and> endswith u ''/'' \<longrightarrow> rdap_query_url (PStr u) d = Inr (url_with_slash u d))"
  by (auto simp: url_without_slash_def url_with_slash_def rdap_query_url_def fun_eq_iff)

theorem query_url_branches_agree_witness:
  "rdap_query_url (PStr ''https://rdap.example/v1'') ''a.com'' =
     Inr (''https://rdap.example/v1'' @ ''domain/'' @ ''a.com'')
   \<and> \<not> endswith ''https://rdap.example/v1'' ''/''
   \<and> rdap_query_url (PStr ''https://rdap.example/v1/'') ''a.com'' =
     Inr (''https://rdap.example/v1/'' @ ''domain/'' @ ''a.com'')
   \<and> endswith ''https://rdap.example/v1/'' ''/''"
  using query_url_branches_agree[of "''https://rdap.example/v1''" "''a.com''"]
    query_url_branches_agree[of "''https://rdap.example/v1/''" "''a.com''"]
  by (simp add: endswith_def)

lemma find_first_find:
  "find_first p xs = Inr r \<Longrightarrow> r = find (\<lambda>x. p x = Inr True) xs"
  by (induction xs) (auto split: sum.splits bool.splits)

lemma registration_test:
  "(exc_bind (py_get e ''eventAction'' PNone) (\<lambda>a. Inr (a = PStr ''registration'')) = Inr True)
     = is_registration e"
  by (cases e) (auto simp: exc_bind_def is_registration_def split: option.splits)

lemma is_registration_truthy: "is_registration e \<Longrightarrow> truthy e"
  by (cases e) (auto simp: is_registration_def)

lemma event_date_get: "is_registration e \<Longrightarrow> py_get e ''eventDate'' PNone = Inr (event_date e)"
  by (cases e) (auto simp: is_registration_def event_date_def)

lemma rdap_creation_date_spec:
  assumes "rdap_creation_date data = Inr v"
  shows "\<exists>events. exc_bind (py_get data ''events'' (PList [])) py_iter = Inr events
           \<and> v = spec_creation_date events"
proof -
  from assms obtain ev where ev: "registration_event data = Inr ev"
    by (auto simp: rdap_creation_date_def exc_bind_def split: sum.splits)
  then obtain evs es where
    g: "py_get data ''events'' (PList []) = Inr evs" and i: "py_iter evs = Inr es"
    and f: "find_first (\<lambda>e. exc_bind (py_get e ''eventAction'' PNone)
                        (\<lambda>a. Inr (a = PStr ''registration''))) es = Inr ev"
    by (auto simp: registration_event_def exc_bind_def split: sum.splits)
  from find_first_find[OF f] have ev_eq: "ev = find is_registration es"
    by (simp add: registration_test)
  have "v = spec_creation_date es"
  proof (cases ev)
    case None
    with assms ev ev_eq show ?thesis
      by (simp add: rdap_creation_date_def exc_bind_def spec_creation_date_def not_found_def)
  next
    case (Some e)
    with ev_eq have "is_registration e"
      by (metis find_Some_iff)
    with assms ev Some ev_eq show ?thesis
      by (simp add: rdap_creation_date_def exc_bind_def spec_creation_date_def
            is_registration_truthy event_date_get)
  qed
  with g i show ?thesis by (simp add: exc_bind_def)
qed

text \<open>
  What the normalizer stores as \<open>creation_date\<close>: the value under \<open>eventDate\<close> of the first
  event whose \<open>eventAction\<close> is \<open>registration\<close>, whatever it is, and the sentinel when there
  is no such event.
\<close>

theorem creation_date_of_registration_event:
  assumes "rdap_normalize pystr domain_query data = Inr parsed"
  shows "\<exists>events. exc_bind (py_get data ''events'' (PList [])) py_iter = Inr events
           \<and> map_of parsed ''creation_date'' = Some (spec_creation_date events)"
proof -
  from assms obtain v where "rdap_creation_date data = Inr v"
    and "map_of parsed ''creation_date'' = Some v"
    by (auto simp: rdap_normalize_def exc_bind_def split: pyval.splits sum.splits)
  with rdap_creation_date_spec show ?thesis by blast
qed

text \<open>
  Claim C8.  The creation date is the sentinel \<open>Not found\<close> when there is no registration
  event, but not in every other case: a registration event without \<open>eventDate\<close> leaves the
  field null, since the source reads the key without a default.
\<close>

theorem creation_date_null_without_event_date:
  "rdap_normalize pystr ''example.com''
     (PDict [(''events'', PList [PDict [(''eventAction'', PStr ''registration'')]])]) =
   Inr [(''domain'', PStr ''example.com''), (''registrar'', PStr ''Not found''),
        (''statuses'', PList [PStr ''Not found'']),
        (''creation_date'', PNone),
        (''registrant_name'', PStr ''Not available via RDAP''),
        (''nexus_categories'', PStr ''Not available via RDAP''),
        (''nameservers'', PList [PStr ''Not found''])]"
  by (simp add: rdap_normalize_def rdap_registrar_def rdap_statuses_def
        collect_all_statuses_def collect_status_def collect_domain_status_def
        collect_handle_status_def collect_status_keys_def collect_nested_status_def
        rdap_creation_date_def registration_event_def rdap_nameservers_def
        exc_bind_def not_found_def lower_def lower_char_def)

lemma split1_not_Nil: "split1 sep s \<noteq> []"
  by (induction s) (auto split: list.splits)

lemma rstrip_prefix: "\<exists>t. s = rstrip s @ t"
proof -
  have "rev s = takeWhile is_space (rev s) @ dropWhile is_space (rev s)" by simp
  then have "s = rev (dropWhile is_space (rev s)) @ rev (takeWhile is_space (rev s))"
    by (metis rev_append rev_rev_ident)
  then show ?thesis unfolding rstrip_def by blast
qed

lemma strip_hd_not_space:
  assumes "strip s0 = c # cs"
  shows "\<not> is_space c"
proof -
  obtain t where t: "lstrip s0 = rstrip (lstrip s0) @ t"
    using rstrip_prefix by blast
  with assms have "lstrip s0 = c # cs @ t"
    by (simp add: strip_def)
  then show ?thesis
    unfolding lstrip_def by (metis hd_dropWhile list.sel(1) list.simps(3))
qed

lemma strip_Cons_not_space:
  assumes "\<not> is_space c"
  shows "strip (c # a) \<noteq> []"
proof -
  have "lstrip (c # a) = c # a"
    using assms by (simp add: lstrip_def)
  moreover have "dropWhile is_space (rev a @ [c]) \<noteq> []"
    using assms by (simp add: dropWhile_append)
  ultimately show ?thesis
    by (simp add: strip_def rstrip_def)
qed

lemma hd_split1_not_space:
  assumes "\<not> is_space c"
  shows "\<exists>a. hd (split1 '' http'' (c # cs)) = c # a"
proof -
  have "c \<noteq> CHR '' ''"
    using assms by (auto simp: is_space_def)
  then show ?thesis
    using split1_not_Nil[of "'' http''" cs]
    by (auto split: list.splits)
qed

lemma url_only_branch_unreachable:
  assumes "strip s0 \<noteq> []"
  shows "strip (hd (split1 '' http'' (strip s0))) \<noteq> []"
proof -
  from assms obtain c cs where s: "strip s0 = c # cs"
    by (cases "strip s0") auto
  then have ns: "\<not> is_space c" by (rule strip_hd_not_space)
  then obtain a where "hd (split1 '' http'' (c # cs)) = c # a"
    using hd_split1_not_space by blast
  with s ns show ?thesis
    by (simp add: strip_Cons_not_space)
qed

lemma extract_status_code_keeps_url:
  "extract_status_code s0 =
     (let s = strip s0 in
      if s = [] then []
      else rstrip_chars '' ;.''
             (if contains ''http://'' s \<or> contains ''https://'' s
              then strip (hd (split1 '' http'' s)) else s))"
  using url_only_branch_unreachable[of s0]
  by (simp add: extract_status_code_def Let_def)

lemma status_example:
  "format_statuses pystr []
     [PStr ''clientTransferProhibited https://icann.org/epp#clientTransferProhibited; ok'']
   = [''clientTransferProhibited'', ''ok'']"
  by (simp add: status_parts_def is_status_sep_def strip_def lstrip_def rstrip_def is_space_def
      extract_status_code_def rstrip_chars_def Let_def)

text \<open>
  Claim C6.  A status that is only a URL is not reduced to its fragment: the branch of
  \<open>extract_status_code\<close> written for it is never reached
  (\<open>extract_status_code_keeps_url\<close>), since the stripped text before the first \<open>" http"\<close>
  of a stripped non-empty string is never empty.  The record keeps the whole URL.
\<close>

theorem url_only_status_not_reduced:
  "rdap_statuses pystr ''example.com''
     [(''status'', PList [PStr ''https://icann.org/epp#clientTransferProhibited''])]
   = Inr [''https://icann.org/epp#clientTransferProhibited'']"
  by (simp add: rdap_statuses_def collect_all_statuses_def collect_status_def
      collect_domain_status_def collect_handle_status_def collect_status_keys_def
      collect_nested_status_def exc_bind_def is_str_def lower_def lower_char_def
      status_parts_def is_status_sep_def strip_def lstrip_def rstrip_def is_space_def
      extract_status_code_def rstrip_chars_def Let_def)

text \<open>
  Claim C3.  A failure that is not a rate limit is taken for one when the text of the
  exception quotes a domain that contains \<open>Rate limit reached\<close>: the registry answers 404
  for \<open>Rate limit reached.com\<close>, \<open>query_rdap\<close> raises the not-found exception, and the
  controller calls no WHOIS lookup and sets the flag.
\<close>

theorem rdap_not_found_taken_for_rate_limit:
  "query_rdap pystr exc_text show_nat
     (\<lambda>url w. (if url = ''https://data.iana.org/rdap/dns.json''
                then Response 200 [] (Inr (PDict []))
                else Response 404 ''Not Found'' (Inl []), w))
     ''Rate limit reached.com'' w =
     (Inl ''RDAP: Domain Rate limit reached.com not found.'', w)
   \<and> process_domain
       (query_rdap pystr exc_text show_nat
          (\<lambda>url w. (if url = ''https://data.iana.org/rdap/dns.json''
                     then Response 200 [] (Inr (PDict []))
                     else Response 404 ''Not Found'' (Inl []), w)))
       whois [''domain'', ''registrar''] True False ''Rate limit reached.com'' w =
     ([(''domain'', PStr ''Rate limit reached.com''),
       (''registrar'', PStr ''Rate limit reached''),
       (''error_message'',
        PStr ''Rate limit reached. Subsequent lookups for other domains will also be marked as rate-limited.'')],
      True, [RdapCall ''Rate limit reached.com''], w)"
proof -
  have q: "query_rdap pystr exc_text show_nat
     (\<lambda>url w. (if url = ''https://data.iana.org/rdap/dns.json''
                then Response 200 [] (Inr (PDict []))
                else Response 404 ''Not Found'' (Inl []), w))
     ''Rate limit reached.com'' w =
     (Inl ''RDAP: Domain Rate limit reached.com not found.'', w)"
    by (simp add: query_rdap_def fetch_json_def rdap_status_error_def exc_bind_def
        rdap_query_url_def lower_def lower_char_def char_of_def bit_0 rsplit_last_def Let_def)
  show ?thesis
    by (simp add: q process_domain_def lookup_domain_def init_result_def mark_fields_def
        Let_def)
qed

section \<open>Properties of the WHOIS lookup and of the statuses\<close>

lemma add_codes_distinct:
  "distinct acc \<and> [] \<notin> set acc \<Longrightarrow>
     distinct (add_codes acc ps) \<and> [] \<notin> set (add_codes acc ps)"
proof (induction ps arbitrary: acc)
  case Nil
  then show ?case by simp
next
  case (Cons p ps)
  show ?case
  proof (cases "extract_status_code p \<noteq> [] \<and> extract_status_code p \<noteq> ''Not found''
                \<and> extract_status_code p \<notin> set acc")
    case True
    then have "add_codes acc (p # ps) = add_codes (acc @ [extract_status_code p]) ps"
      by (simp add: Let_def)
    moreover have "distinct (acc @ [extract_status_code p])
        \<and> [] \<notin> set (acc @ [extract_status_code p])"
      using True Cons.prems by auto
    ultimately show ?thesis
      using Cons.IH by presburger
  next
    case False
    then have "add_codes acc (p # ps) = add_codes acc ps"
      by (auto simp: Let_def)
    then show ?thesis
      using Cons.IH[OF Cons.prems] by simp
  qed
qed

lemma format_statuses_distinct:
  "distinct acc \<and> [] \<notin> set acc \<Longrightarrow>
     distinct (format_statuses pystr acc sts) \<and> [] \<notin> set (format_statuses pystr acc sts)"
proof (induction sts arbitrary: acc)
  case Nil
  then show ?case by simp
next
  case (Cons st sts)
  have "distinct (add_codes acc (status_parts pystr st))
      \<and> [] \<notin> set (add_codes acc (status_parts pystr st))"
    using Cons.prems by (rule add_codes_distinct)
  then show ?case
    using Cons.IH by simp
qed

lemma rdap_statuses_distinct:
  assumes "rdap_statuses pystr domain_query kvs = Inr sts"
  shows "distinct sts \<and> [] \<notin> set sts"
proof -
  from assms obtain collected where
    "sts = format_statuses pystr [] collected \<or> sts = neustar_statuses \<or> sts = [''Not found'']"
    by (auto simp: rdap_statuses_def exc_bind_def split: sum.splits if_splits)
  moreover have "distinct (format_statuses pystr [] collected)
      \<and> [] \<notin> set (format_statuses pystr [] collected)"
    by (rule format_statuses_distinct) simp
  moreover have "distinct neustar_statuses \<and> [] \<notin> set neustar_statuses"
    by (simp add: neustar_statuses_def)
  ultimately show ?thesis by auto
qed

lemma whois_format_str:
  "whois_format acc (PStr s # raw) =
     (if PStr s \<in> set acc then whois_format acc raw
      else if (if contains ''https://'' s then strip (split_head '' https://'' s) else strip s) \<noteq> []
            \<and> (if contains ''https://'' s then strip (split_head '' https://'' s) else strip s)
                \<noteq> ''Not found''
      then whois_format
             (acc @ [PStr (if contains ''https://'' s then strip (split_head '' https://'' s)
                           else strip s)]) raw
      else whois_format acc raw)"
  by (simp add: Let_def)

lemma whois_format_other:
  "\<not> is_str st \<Longrightarrow> whois_format acc (st # raw) =
     (if st \<in> set acc then whois_format acc raw else whois_format (acc @ [st]) raw)"
  by (cases st) (simp_all add: is_str_def)

lemma whois_format_no_empty:
  "PStr [] \<notin> set acc \<Longrightarrow> PStr [] \<notin> set (whois_format acc raw)"
proof (induction raw arbitrary: acc)
  case Nil
  then show ?case by simp
next
  case (Cons st raw)
  have "\<exists>acc'. whois_format acc (st # raw) = whois_format acc' raw \<and> PStr [] \<notin> set acc'"
  proof (cases "is_str st")
    case True
    then obtain s where st: "st = PStr s"
      by (cases st) (simp_all add: is_str_def)
    define code where
      "code = (if contains ''https://'' s then strip (split_head '' https://'' s) else strip s)"
    have step: "whois_format acc (st # raw) =
       (if PStr s \<in> set acc then whois_format acc raw
        else if code \<noteq> [] \<and> code \<noteq> ''Not found'' then whois_format (acc @ [PStr code]) raw
        else whois_format acc raw)"
      unfolding st code_def by (rule whois_format_str)
    show ?thesis
    proof (cases "PStr s \<notin> set acc \<and> code \<noteq> [] \<and> code \<noteq> ''Not found''")
      case True
      then have "whois_format acc (st # raw) = whois_format (acc @ [PStr code]) raw"
        using step by presburger
      moreover have "PStr [] \<notin> set (acc @ [PStr code])"
        using True Cons.prems by auto
      ultimately show ?thesis by blast
    next
      case False
      then have "whois_format acc (st # raw) = whois_format acc raw"
        using step by presburger
      then show ?thesis
        using Cons.prems by blast
    qed
  next
    case False
    then have "st \<noteq> PStr []"
      by (auto simp: is_str_def)
    then have "PStr [] \<notin> set (acc @ [st])"
      using Cons.prems by simp
    then show ?thesis
      using whois_format_other[OF False, of acc raw] Cons.prems
      by (metis (full_types))
  qed
  then show ?case
    using Cons.IH by metis
qed

text \<open>
  Claim C5.  The RDAP path yields distinct, non-empty tokens (\<open>rdap_statuses_distinct\<close>),
  and the WHOIS path no empty string (\<open>whois_format_no_empty\<close>); but the WHOIS loop tests
  the raw status for membership in the list of cleaned codes, so two raw statuses with the
  same code and different URLs put the code into \<open>statuses\<close> twice.
\<close>

theorem whois_statuses_duplicate:
  "query_whois pystr exc_text
     (\<lambda>d w. (Inr (Some \<lparr>whois_text = None, registrar = PStr ''Example Registrar'',
                          statuses = Some (PList [PStr ''ok https://icann.org/epp#ok'',
                                                  PStr ''ok https://www.icann.org/epp#ok'']),
                          status = None, creation_date = PNone,
                          name_servers = PList [PStr ''ns1.example.com'']\<rparr>), w))
     whois_command ''example.com'' w =
   (Inr [(''domain'', PStr ''example.com''),
         (''registrar'', PStr ''Example Registrar''),
         (''registrant_name'', PStr ''Not found''),
         (''statuses'', PList [PStr ''ok'', PStr ''ok'']),
         (''creation_date'', PStr ''Not found''),
         (''nexus_categories'', PStr ''N/A (not .US domain)''),
         (''nameservers'', PList [PStr ''ns1.example.com''])], w)"
  by (simp add: query_whois_def whois_no_match_def whois_no_registrar_def endswith_def
      lower_def lower_char_def scan_registrant_name_def whois_statuses_def
      whois_raw_statuses_def exc_bind_def split_head_def strip_def lstrip_def rstrip_def
      is_space_def whois_creation_date_def not_found_def Let_def)

lemma not_found_example:
  "query_whois pystr exc_text (\<lambda>d w. (Inr None, w)) whois_command ''example.com'' w =
     (Inl ''WHOIS lookup for example.com failed: WHOIS: Domain example.com not found.'', w)"
  by (simp add: query_whois_def whois_failure_def whois_not_found_text_def
      lower_def lower_char_def char_of_def bit_0)

text \<open>
  Claim C4.  An empty WHOIS answer for \<open>unlimited.com\<close> raises the not-found exception
  inside the \<open>try\<close> block; the \<open>except\<close> clause finds \<open>limit\<close> in its text, which quotes the
  domain, and raises the rate-limit exception in its place, which the controller takes for
  the rate-limit signal.  For a domain without that substring the failure is the not-found
  one (\<open>not_found_example\<close>).
\<close>

theorem not_found_reported_as_rate_limit:
  "query_whois pystr exc_text (\<lambda>d w. (Inr None, w)) whois_command ''unlimited.com'' w =
     (Inl ''WHOIS: Rate limit reached for unlimited.com.'', w)
   \<and> contains ''Rate limit reached'' ''WHOIS: Rate limit reached for unlimited.com.''"
  by (simp add: query_whois_def whois_failure_def whois_not_found_text_def
      lower_def lower_char_def char_of_def bit_0)

lemma stream_loop_one_result_per_domain:
  "\<exists>rs. fst (stream_loop rdap whois fs use flag ds w) = map Result rs
        \<and> length rs = length ds"
proof (induction ds arbitrary: flag w)
  case Nil
  then show ?case by simp
next
  case (Cons d ds)
  obtain r flag1 cs w1 where p: "process_domain rdap whois fs use flag d w = (r, flag1, cs, w1)"
    by (rule prod_cases4)
  from Cons[of flag1 w1] obtain rs where
    "fst (stream_loop rdap whois fs use flag1 ds w1) = map Result rs" "length rs = length ds"
    by blast
  with p have "fst (stream_loop rdap whois fs use flag (d # ds) w) = map Result (r # rs)
      \<and> length (r # rs) = length (d # ds)"
    by (auto split: prod.splits)
  then show ?case by blast
qed

text \<open>
  Claim C2.  The generator emits one \<open>result\<close> event per cleaned domain, in input order
  (\<open>stream_loop_one_result_per_domain\<close>), but its \<open>domain\<close> field is not always the cleaned
  entry: for \<open>NEUSTAR.BIZ\<close> with the field \<open>domain\<close> requested and \<open>use_rdap\<close> set, the
  record of the special case of \<open>query_rdap\<close> carries the literal \<open>neustar.biz\<close>, and the
  copy of the requested fields writes it over the entry.
\<close>

theorem neustar_domain_case_not_preserved:
  "whois_lookup_endpoint (query_rdap pystr exc_text show_nat http_get) whois
     \<lparr>domains = [''NEUSTAR.BIZ''], fields' = [''domain''], use_rdap = True\<rparr> w =
   ([Total 1, Message ''Lookup started'',
     Result [(''domain'', PStr ''neustar.biz''), (''_method'', PStr ''RDAP'')]],
    [RdapCall ''NEUSTAR.BIZ''], w)"
  by (simp add: whois_lookup_endpoint_def truncate_domains_def MAX_DOMAINS_def
      clean_fields_def ALLOWED_FIELDS_def lookup_and_stream_generator_def
      process_domain_def lookup_domain_def query_rdap_def neustar_parsed_def
      init_result_def copy_fields_def strip_def lstrip_def rstrip_def is_space_def
      lower_def lower_char_def char_of_def bit_0 Let_def)

end
